theory Spec2Isabelle
  imports Main "HOL-Library.Word"
begin

section \<open>The background script: wait/threshold tracker\<close>

text \<open>
  \<^verbatim>\<open>background.js\<close> keeps three module-level variables. \<^verbatim>\<open>tokenWaitStartTime\<close> is
  either \<^verbatim>\<open>null\<close> or a reading of \<^verbatim>\<open>Date.now()\<close> (integer milliseconds). The script
  never compares it with \<^verbatim>\<open>null\<close>: every test is a truthiness test
  (\<^verbatim>\<open>if (tokenWaitStartTime)\<close>), for which \<^verbatim>\<open>null\<close> and \<^verbatim>\<open>0\<close> are both falsy.
\<close>

definition TOKEN_WAIT_THRESHOLD_MS :: int where
  "TOKEN_WAIT_THRESHOLD_MS = 30000"

record bg_state =
  tokenWaitStartTime :: "int option"
  autoReloadEnabled :: bool
  autoClearEnabled :: bool

definition truthy_num :: "int option \<Rightarrow> bool" where
  "truthy_num v = (case v of None \<Rightarrow> False | Some n \<Rightarrow> n \<noteq> 0)"

definition truthy_str :: "string option \<Rightarrow> bool" where
  "truthy_str v = (case v of None \<Rightarrow> False | Some s \<Rightarrow> s \<noteq> [])"

text \<open>\<^verbatim>\<open>Date.now() - tokenWaitStartTime\<close>: in arithmetic \<^verbatim>\<open>null\<close> converts to \<^verbatim>\<open>0\<close>.\<close>

definition to_number :: "int option \<Rightarrow> int" where
  "to_number v = (case v of None \<Rightarrow> 0 | Some n \<Rightarrow> n)"

text \<open>
  \<^verbatim>\<open>chrome.storage.local\<close> holds the three settings keys; a key that was never written
  reads as \<^verbatim>\<open>undefined\<close>.
\<close>

record storage =
  wplacerPort :: "nat option"
  autoReload :: "bool option"
  autoClear :: "bool option"

record settings =
  port :: nat
  host :: string
  s_autoReload :: bool
  s_autoClear :: bool

text \<open>
  \<^verbatim>\<open>getSettings\<close> (lines 12-24). The read of the storage area is the only step that can
  reject; \<open>None\<close> stands for that rejection.
\<close>

definition getSettings :: "storage option \<Rightarrow> bg_state \<Rightarrow> (settings \<times> bg_state) option" where
  "getSettings st s =
     (case st of
        None \<Rightarrow> None
      | Some r \<Rightarrow>
          let ar = (case autoReload r of Some b \<Rightarrow> b | None \<Rightarrow> True);
              ac = (case autoClear r of Some b \<Rightarrow> b | None \<Rightarrow> True)
          in Some (\<lparr> port = (case wplacerPort r of Some n \<Rightarrow> (if n = 0 then 80 else n) | None \<Rightarrow> 80),
                     host = ''127.0.0.1'', s_autoReload = ar, s_autoClear = ac \<rparr>,
                   s\<lparr> autoReloadEnabled := ar, autoClearEnabled := ac \<rparr>))"

text \<open>
  The effects of the background script that the tracker and the message listener issue,
  in the order they are issued.
\<close>

datatype bg_effect =
    TokenStatusChanged bool "int option"
  | ClearPawtectCache
  | InitiateReload
  | PostToken
  | SendResponse bool
  | SendTokenStatus bool int
  | Dispatch string

text \<open>
  The answer of \<^verbatim>\<open>GET /token-needed\<close> as the tick sees it: the request or the JSON
  parse threw, the response was not \<^verbatim>\<open>ok\<close>, or the body carried \<^verbatim>\<open>needed\<close>.
\<close>

datatype poll_reply = PollThrew | PollNotOk | Needed bool

text \<open>
  One tick reads the clock up to three times, with awaited calls in between
  (\<^verbatim>\<open>clearPawtectCache\<close> before the reset on line 82, \<^verbatim>\<open>initiateReload\<close> before the
  comparison on line 92), so the three readings are separate inputs.
\<close>

record poll_env =
  pe_storage :: "storage option"
  pe_reply :: poll_reply
  now_check :: int
  now_reset :: int
  now_after_reload :: int

text \<open>Lines 57-84: start the timer, or report the wait and test the overdue condition.\<close>

definition wait_phase :: "poll_env \<Rightarrow> settings \<Rightarrow> bg_state \<Rightarrow> bg_state \<times> bg_effect list" where
  "wait_phase env cfg s =
     (if \<not> truthy_num (tokenWaitStartTime s) then
        (s\<lparr> tokenWaitStartTime := Some (now_check env) \<rparr>, [TokenStatusChanged True (Some 0)])
      else
        let waitTime = now_check env - to_number (tokenWaitStartTime s);
            waitTimeSeconds = waitTime div 1000
        in if waitTime > TOKEN_WAIT_THRESHOLD_MS \<and> s_autoClear cfg then
             (s\<lparr> tokenWaitStartTime := Some (now_reset env) \<rparr>,
              [TokenStatusChanged True (Some waitTimeSeconds), ClearPawtectCache])
           else (s, [TokenStatusChanged True (Some waitTimeSeconds)]))"

text \<open>
  Lines 86-98: the reload, and the clear after it. \<^verbatim>\<open>TOKEN_WAIT_THRESHOLD_MS / 2\<close> is
  exactly 15000.
\<close>

definition reload_phase :: "poll_env \<Rightarrow> settings \<Rightarrow> bg_state \<Rightarrow> bg_state \<times> bg_effect list" where
  "reload_phase env cfg s =
     (if s_autoReload cfg then
        (s, InitiateReload #
            (if s_autoClear cfg \<and>
                now_after_reload env - to_number (tokenWaitStartTime s) > TOKEN_WAIT_THRESHOLD_MS div 2
             then [ClearPawtectCache] else []))
      else (s, []))"

text \<open>
  \<^verbatim>\<open>pollForTokenRequest\<close> (lines 32-115). Every exception inside the tick ends in the
  \<^verbatim>\<open>catch\<close> on line 112, which only logs. \<^verbatim>\<open>clearPawtectCache\<close> resolves on every path
  of its body and \<^verbatim>\<open>initiateReload\<close> catches its own failures, so both are calls that
  return.
\<close>

definition pollForTokenRequest :: "poll_env \<Rightarrow> bg_state \<Rightarrow> bg_state \<times> bg_effect list" where
  "pollForTokenRequest env s =
     (case getSettings (pe_storage env) s of
        None \<Rightarrow> (s, [])
      | Some (cfg, s1) \<Rightarrow>
          (case pe_reply env of
             PollThrew \<Rightarrow> (s1, [])
           | PollNotOk \<Rightarrow> (s1, [])
           | Needed True \<Rightarrow>
               (let (s2, es) = wait_phase env cfg s1;
                    (s3, es') = reload_phase env cfg s2
                in (s3, es @ es'))
           | Needed False \<Rightarrow>
               (if truthy_num (tokenWaitStartTime s1) then
                  (s1\<lparr> tokenWaitStartTime := None \<rparr>, [TokenStatusChanged False None])
                else (s1, []))))"

text \<open>
  The two cache clears of a tick are told apart by their place in the trace: the overdue
  clear is issued before \<^verbatim>\<open>initiateReload\<close>, the other one after it.
\<close>

definition overdue_fired :: "bg_effect list \<Rightarrow> bool" where
  "overdue_fired es = (ClearPawtectCache \<in> set (takeWhile (\<lambda>e. e \<noteq> InitiateReload) es))"

definition half_clear_fired :: "bg_effect list \<Rightarrow> bool" where
  "half_clear_fired es = (ClearPawtectCache \<in> set (dropWhile (\<lambda>e. e \<noteq> InitiateReload) es))"

definition setting_autoClear :: "storage \<Rightarrow> bool" where
  "setting_autoClear r = (case autoClear r of Some b \<Rightarrow> b | None \<Rightarrow> True)"

definition setting_autoReload :: "storage \<Rightarrow> bool" where
  "setting_autoReload r = (case autoReload r of Some b \<Rightarrow> b | None \<Rightarrow> True)"


section \<open>The message listener\<close>




section \<open>The page script: strings and patterns\<close>

text \<open>
  Strings are lists of code units. The regular expressions of the page script are
  written out as functions. With the \<^verbatim>\<open>i\<close> flag a pattern character and a text character
  match when their upper-case forms agree, and only the ASCII letters have another
  upper-case form; so a pattern with the flag is matched, with its literals in upper
  case, against the text in upper case.
\<close>

definition upper_char :: "char \<Rightarrow> char" where
  "upper_char c =
     (case map_of (zip ''abcdefghijklmnopqrstuvwxyz'' ''ABCDEFGHIJKLMNOPQRSTUVWXYZ'') c of
        Some u \<Rightarrow> u
      | None \<Rightarrow> c)"

fun starts_with :: "string \<Rightarrow> string \<Rightarrow> bool" where
  "starts_with [] t = True"
| "starts_with (p # ps) [] = False"
| "starts_with (p # ps) (c # cs) = (if p = c then starts_with ps cs else False)"

fun contains :: "string \<Rightarrow> string \<Rightarrow> bool" where
  "contains p [] = starts_with p []"
| "contains p (c # cs) = (if starts_with p (c # cs) then True else contains p cs)"

definition contains_ci :: "string \<Rightarrow> string \<Rightarrow> bool" where
  "contains_ci p t = contains (map upper_char p) (map upper_char t)"

text \<open>\<^verbatim>\<open>/\/s0\/pixel\//\<close> (lines 517 and 548).\<close>

definition is_pixel_url :: "string \<Rightarrow> bool" where
  "is_pixel_url u = contains ''/s0/pixel/'' u"

text \<open>\<^verbatim>\<open>/get_pawtected_endpoint_payload|__wbindgen_malloc/i\<close> (line 416).\<close>

definition has_signature :: "string \<Rightarrow> bool" where
  "has_signature t =
     (if contains_ci ''get_pawtected_endpoint_payload'' t then True
      else contains_ci ''__wbindgen_malloc'' t)"

text \<open>
  \<^verbatim>\<open>/\/_app\/immutable\/chunks\/.*\.js(\?.*)?$/i\<close> (line 398). The dot matches every
  code unit but a line terminator; \<^verbatim>\<open>$\<close> is the end of the string. \<open>js_suffix\<close> is
  \<^verbatim>\<open>\.js(\?.*)?$\<close> at the head of the text, \<open>dot_star_js\<close> is \<^verbatim>\<open>.*\.js(\?.*)?$\<close>
  there, and \<open>chunk_re\<close> looks for the directory at every position.
\<close>

definition line_terminator :: "char \<Rightarrow> bool" where
  "line_terminator c = (c = CHR 0x0A \<or> c = CHR 0x0D)"

definition js_suffix :: "string \<Rightarrow> bool" where
  "js_suffix t =
     (if starts_with (map upper_char ''.js'') t then
        (case drop 3 t of
           [] \<Rightarrow> True
         | q # r \<Rightarrow> q = CHR ''?'' \<and> list_all (\<lambda>c. \<not> line_terminator c) r)
      else False)"

fun dot_star_js :: "string \<Rightarrow> bool" where
  "dot_star_js [] = False"
| "dot_star_js (c # cs) =
     (if js_suffix (c # cs) then True
      else if line_terminator c then False
      else dot_star_js cs)"

definition chunks_dir :: string where
  "chunks_dir = ''/_app/immutable/chunks/''"

fun chunk_re :: "string \<Rightarrow> bool" where
  "chunk_re [] = False"
| "chunk_re (c # cs) =
     (if starts_with (map upper_char chunks_dir) (c # cs) then
        (if dot_star_js (drop (length chunks_dir) (c # cs)) then True else chunk_re cs)
      else chunk_re cs)"

definition is_chunk_url :: "string \<Rightarrow> bool" where
  "is_chunk_url src = chunk_re (map upper_char src)"

section \<open>The page script: state, environment and events\<close>

type_synonym byte = "8 word"

text \<open>
  What \<^verbatim>\<open>get_pawtected_endpoint_payload\<close> returned, by the shapes the script tests for:
  an array (of the numbers the module returns), a string, an object with its \<^verbatim>\<open>ptr\<close>
  and \<^verbatim>\<open>len\<close> members (\<open>None\<close> when the member is not a number), or any other value.
\<close>

datatype wasm_out =
    OutArray "int list"
  | OutString string
  | OutObject "int option" "int option"
  | OutOther

text \<open>
  The module is opaque. \<open>has_init\<close>: \<^verbatim>\<open>typeof mod._ === 'function'\<close>; \<open>init_ok\<close>:
  \<^verbatim>\<open>await mod._()\<close> resolves. One run covers \<^verbatim>\<open>mod.i\<close>, \<^verbatim>\<open>mod.r(url)\<close>, the
  allocation and copy of the encoded body and the call itself; it yields the returned
  value and the contents of \<^verbatim>\<open>wasm.memory.buffer\<close> at that moment, or \<open>None\<close> when
  one of these steps throws.
\<close>

record wasm_run =
  run_out :: wasm_out
  run_memory :: "byte list"

record pawtect_module =
  has_init :: bool
  init_ok :: bool
  run_payload :: "string \<Rightarrow> string \<Rightarrow> wasm_run option"

datatype fetch_result = FetchThrew | ResponseNotOk | TextThrew | ResponseText string

datatype js_body = StringBody string | OtherBody

text \<open>
  The arguments of a \<^verbatim>\<open>fetch\<close> call: \<^verbatim>\<open>args[0]\<close>, and of \<^verbatim>\<open>args[1]\<close> the
  \<^verbatim>\<open>body\<close> member the hook looks at and the remaining members.
\<close>

record fetch_args =
  arg_input :: string
  arg_init_body :: "js_body option"
  arg_init_rest :: "(string \<times> string) list"

text \<open>
  A constructed \<^verbatim>\<open>Request\<close>: its method, its URL, and what
  \<^verbatim>\<open>req.clone().text()\<close> yields (\<open>None\<close> when cloning or reading throws).
\<close>

record js_request =
  req_method :: string
  req_url :: string
  req_clone_text :: "string option"

record page_env =
  location_origin :: string
  script_srcs :: "string option list"
  link_hrefs :: "string option list"
  resource_entries :: "string list option"
  fetch_resource :: "string \<Rightarrow> fetch_result"
  dynamic_import :: "string \<Rightarrow> pawtect_module option"
  text_decode :: "byte list \<Rightarrow> string"
  new_Request :: "fetch_args \<Rightarrow> js_request option"

datatype token = TokenString string | TokenNull | TokenUndefined

datatype page_event =
    Import string
  | ScanFetch string
  | FetchMe
  | PostMessage string token string
  | ComputePawtect string string
  | NetworkFetch fetch_args
  | NetworkSend

text \<open>How a call ends: with a value, or with an exception that leaves it.\<close>

datatype 'a completion = Returned 'a | Threw

text \<open>\<^verbatim>\<open>window.fetch\<close>: the browser's own, or a hook that closed over the previous one.\<close>

datatype fetch_fn = NativeFetch | HookedFetch fetch_fn

text \<open>
  \<^verbatim>\<open>XMLHttpRequest.prototype.open\<close> and \<^verbatim>\<open>send\<close> likewise; the two are replaced
  together, so one value stands for the pair. \<open>None\<close>: the page has no
  \<^verbatim>\<open>XMLHttpRequest\<close>.
\<close>

datatype xhr_fn = NativeXhr | HookedXhr xhr_fn

record page_state =
  hooked :: bool
  ls_pawtect_path :: "string option"
  pawtectChunk :: "string option"
  window_fetch :: fetch_fn
  xhr_methods :: "xhr_fn option"

section \<open>Module locator\<close>

text \<open>
  \<^verbatim>\<open>getOptimizedPawtectUrl\<close> (lines 353-368). The page's \<^verbatim>\<open>localStorage\<close> is a map
  whose reads and writes succeed; of its keys the script uses \<^verbatim>\<open>wplacer_pawtect_path\<close>.
\<close>

definition getOptimizedPawtectUrl :: "page_state \<Rightarrow> string option \<times> page_state" where
  "getOptimizedPawtectUrl p =
     (if truthy_str (ls_pawtect_path p) then
        (ls_pawtect_path p, p\<lparr> pawtectChunk := ls_pawtect_path p \<rparr>)
      else if truthy_str (pawtectChunk p) then (pawtectChunk p, p)
      else (None, p))"

text \<open>
  A JavaScript \<^verbatim>\<open>Set\<close> keeps its members in insertion order and ignores a member it
  already has.
\<close>

definition set_add :: "string list \<Rightarrow> string \<Rightarrow> string list" where
  "set_add xs x = (if x \<in> set xs then xs else xs @ [x])"

fun somes :: "'a option list \<Rightarrow> 'a list" where
  "somes [] = []"
| "somes (None # xs) = somes xs"
| "somes (Some x # xs) = x # somes xs"

text \<open>
  Lines 374-394: script sources, then preload links, then resource entries. An element
  whose URL does not parse is skipped (\<open>None\<close>); a resource entry with an empty name is
  skipped; when \<^verbatim>\<open>performance.getEntriesByType\<close> throws no entry is added.
\<close>

definition enumerated_urls :: "page_env \<Rightarrow> string list" where
  "enumerated_urls env =
     somes (script_srcs env) @ somes (link_hrefs env) @
     (case resource_entries env of None \<Rightarrow> [] | Some ns \<Rightarrow> filter (\<lambda>n. n \<noteq> []) ns)"

definition collect_urls :: "page_env \<Rightarrow> string list" where
  "collect_urls env = foldl set_add [] (enumerated_urls env)"

definition chunkCandidates :: "page_env \<Rightarrow> string list" where
  "chunkCandidates env = filter is_chunk_url (collect_urls env)"

text \<open>
  Whether the fetched contents of a candidate carry the signature (lines 406-416): a
  failed fetch, a response that is not \<^verbatim>\<open>ok\<close> and a failed read all move on to the
  next candidate.
\<close>

definition candidate_matches :: "page_env \<Rightarrow> string \<Rightarrow> bool" where
  "candidate_matches env u =
     (case fetch_resource env u of
        ResponseText t \<Rightarrow> has_signature t
      | FetchThrew \<Rightarrow> False
      | ResponseNotOk \<Rightarrow> False
      | TextThrew \<Rightarrow> False)"

text \<open>The \<^verbatim>\<open>for\<close> loop of lines 404-428.\<close>

fun scan_candidates ::
  "page_env \<Rightarrow> string list \<Rightarrow> page_state \<Rightarrow> string option \<times> page_state \<times> page_event list" where
  "scan_candidates env [] p = (None, p, [])"
| "scan_candidates env (u # us) p =
     (if candidate_matches env u then
        (Some u, p\<lparr> ls_pawtect_path := Some u, pawtectChunk := Some u \<rparr>, [ScanFetch u])
      else
        (case scan_candidates env us p of (r, p', es) \<Rightarrow> (r, p', ScanFetch u # es)))"

text \<open>\<^verbatim>\<open>discoverPawtectChunk\<close> (lines 370-437).\<close>

definition discoverPawtectChunk ::
  "page_env \<Rightarrow> page_state \<Rightarrow> string option \<times> page_state \<times> page_event list" where
  "discoverPawtectChunk env p = scan_candidates env (chunkCandidates env) p"

definition fallback_chunk :: string where
  "fallback_chunk = ''/_app/immutable/chunks/BdJF80pX.js''"

definition fastCandidates :: "page_env \<Rightarrow> string option \<Rightarrow> string list" where
  "fastCandidates env cachedUrl =
     (if truthy_str cachedUrl then (case cachedUrl of Some c \<Rightarrow> [c] | None \<Rightarrow> []) else []) @
     [location_origin env @ fallback_chunk, ''https://wplace.live'' @ fallback_chunk]"

text \<open>The \<^verbatim>\<open>for\<close> loop of lines 449-456: the first import that succeeds is returned.\<close>

fun try_imports :: "page_env \<Rightarrow> string list \<Rightarrow> pawtect_module option \<times> page_event list" where
  "try_imports env [] = (None, [])"
| "try_imports env (u # us) =
     (case dynamic_import env u of
        Some m \<Rightarrow> (Some m, [Import u])
      | None \<Rightarrow> (case try_imports env us of (r, es) \<Rightarrow> (r, Import u # es)))"

text \<open>
  \<^verbatim>\<open>importModule\<close> (lines 439-474). Each \<^verbatim>\<open>import\<close> stands in a \<^verbatim>\<open>try\<close> block and
  the discovery catches its own failures, so every path ends in a \<^verbatim>\<open>return\<close>.
\<close>

definition importModule ::
  "page_env \<Rightarrow> page_state \<Rightarrow> pawtect_module option completion \<times> page_state \<times> page_event list" where
  "importModule env p =
     (case getOptimizedPawtectUrl p of (cachedUrl, p1) \<Rightarrow>
        (case try_imports env (fastCandidates env cachedUrl) of
           (Some m, es) \<Rightarrow> (Returned (Some m), p1, es)
         | (None, es) \<Rightarrow>
             (case discoverPawtectChunk env p1 of (discoveredUrl, p2, ds) \<Rightarrow>
                (if truthy_str discoveredUrl then
                   (case discoveredUrl of
                      Some d \<Rightarrow>
                        (case dynamic_import env d of
                           Some m \<Rightarrow> (Returned (Some m), p2, es @ ds @ [Import d])
                         | None \<Rightarrow> (Returned None, p2, es @ ds @ [Import d]))
                    | None \<Rightarrow> (Returned None, p2, es @ ds))
                 else (Returned None, p2, es @ ds)))))"

text \<open>The fast candidates of a call, in the order the loop tries them.\<close>

definition fast_path :: "page_env \<Rightarrow> page_state \<Rightarrow> string list" where
  "fast_path env p = fastCandidates env (fst (getOptimizedPawtectUrl p))"


section \<open>Module invocation bridge\<close>

text \<open>
  \<^verbatim>\<open>new Uint8Array(buffer, byteOffset, length)\<close>: an \<^verbatim>\<open>undefined\<close> offset is \<^verbatim>\<open>0\<close>, an
  \<^verbatim>\<open>undefined\<close> length takes the rest of the buffer; a negative argument or a view that
  leaves the buffer raises \<^verbatim>\<open>RangeError\<close> (\<open>None\<close>).
\<close>

definition uint8_view :: "byte list \<Rightarrow> int option \<Rightarrow> int option \<Rightarrow> byte list option" where
  "uint8_view buf byteOffset len =
     (let off = (case byteOffset of None \<Rightarrow> 0 | Some n \<Rightarrow> n) in
      if off < 0 then None
      else
        (case len of
           None \<Rightarrow> if off > int (length buf) then None else Some (drop (nat off) buf)
         | Some l \<Rightarrow>
             if l < 0 then None
             else if off + l > int (length buf) then None
             else Some (take (nat l) (drop (nat off) buf))))"

text \<open>\<^verbatim>\<open>const [outPtr, outLen] = out\<close>: a missing element is \<^verbatim>\<open>undefined\<close>.\<close>

definition element :: "int list \<Rightarrow> nat \<Rightarrow> int option" where
  "element xs i = (if i < length xs then Some (xs ! i) else None)"

text \<open>
  The first three branches of the chain on lines 493-501 (the same text stands on lines
  610-618 and 671-679). \<open>Returned None\<close>: none of the three applied, and what the token
  is then is the caller's business. The call of \<^verbatim>\<open>__wbindgen_free\<close> stands in its own
  \<^verbatim>\<open>try\<close> and changes nothing the script reads afterwards.
\<close>

definition decode_out :: "(byte list \<Rightarrow> string) \<Rightarrow> wasm_run \<Rightarrow> string option completion" where
  "decode_out dec r =
     (case run_out r of
        OutArray xs \<Rightarrow>
          (case uint8_view (run_memory r) (element xs 0) (element xs 1) of
             None \<Rightarrow> Threw
           | Some bs \<Rightarrow> Returned (Some (dec bs)))
      | OutString s \<Rightarrow> Returned (Some s)
      | OutObject ptr len \<Rightarrow>
          (case (ptr, len) of
             (Some p, Some l) \<Rightarrow>
               (case uint8_view (run_memory r) (Some p) (Some l) of
                  None \<Rightarrow> Threw
                | Some bs \<Rightarrow> Returned (Some (dec bs)))
           | _ \<Rightarrow> Returned None)
      | OutOther \<Rightarrow> Returned None)"

definition token_type :: string where
  "token_type = ''WPLACER_PAWTECT_TOKEN''"

text \<open>
  \<^verbatim>\<open>computePawtect\<close> (lines 476-509). Without a module, or with one whose \<^verbatim>\<open>_\<close> is not
  a function, it returns \<^verbatim>\<open>null\<close> and posts nothing. The lookup of \<^verbatim>\<open>/me\<close> stands in a
  \<^verbatim>\<open>try\<close>. A rejected \<^verbatim>\<open>mod._()\<close>, a step of the run that throws, or a view outside
  the buffer, leaves the function before the message is posted. The final \<^verbatim>\<open>else\<close> sets the token to \<^verbatim>\<open>null\<close>.
\<close>

definition computePawtect ::
  "page_env \<Rightarrow> page_state \<Rightarrow> string \<Rightarrow> string \<Rightarrow> token completion \<times> page_state \<times> page_event list" where
  "computePawtect env p url bodyStr =
     (case importModule env p of
        (Threw, p', es) \<Rightarrow> (Threw, p', es)
      | (Returned None, p', es) \<Rightarrow> (Returned TokenNull, p', es)
      | (Returned (Some md), p', es) \<Rightarrow>
          if \<not> has_init md then (Returned TokenNull, p', es)
          else if \<not> init_ok md then (Threw, p', es)
          else
            (case run_payload md url bodyStr of
               None \<Rightarrow> (Threw, p', es @ [FetchMe])
             | Some r \<Rightarrow>
                 (case decode_out (text_decode env) r of
                    Threw \<Rightarrow> (Threw, p', es @ [FetchMe])
                  | Returned d \<Rightarrow>
                      (let tok = (case d of Some t \<Rightarrow> TokenString t | None \<Rightarrow> TokenNull)
                       in (Returned tok, p', es @ [FetchMe, PostMessage token_type tok ''pixel''])))))"

definition backend :: string where
  "backend = ''https://backend.wplace.live''"

text \<open>
  The page function of \<^verbatim>\<open>seedPawtect\<close> (lines 585-623): the whole body stands in one
  \<^verbatim>\<open>try\<close> with an empty \<^verbatim>\<open>catch\<close>, so a step that throws ends it without a message.
  There is no final \<^verbatim>\<open>else\<close>: the token of an unrecognised output stays \<^verbatim>\<open>undefined\<close>.
\<close>

definition seedPawtect_func :: "page_env \<Rightarrow> page_state \<Rightarrow> string \<Rightarrow> page_event list" where
  "seedPawtect_func env p rawBody =
     (let target = (if truthy_str (ls_pawtect_path p)
                    then (case ls_pawtect_path p of Some c \<Rightarrow> c | None \<Rightarrow> fallback_chunk)
                    else fallback_chunk)
      in case dynamic_import env target of
           None \<Rightarrow> [Import target]
         | Some md \<Rightarrow>
             if \<not> has_init md \<or> \<not> init_ok md then [Import target]
             else
               (case run_payload md (backend @ ''/s0/pixel/1/1'') rawBody of
                  None \<Rightarrow> [Import target, FetchMe]
                | Some r \<Rightarrow>
                    (case decode_out (text_decode env) r of
                       Threw \<Rightarrow> [Import target, FetchMe]
                     | Returned d \<Rightarrow>
                         [Import target, FetchMe,
                          PostMessage token_type
                            (case d of Some t \<Rightarrow> TokenString t | None \<Rightarrow> TokenUndefined) ''seed''])))"

text \<open>
  The page function of \<^verbatim>\<open>computePawtectForT\<close> (lines 638-684). The body it sends to the
  module is \<^verbatim>\<open>JSON.stringify\<close> of an object with random coordinates and fingerprint;
  that string is the argument \<open>rawBody\<close> here.
\<close>

definition computePawtectForT_func :: "page_env \<Rightarrow> page_state \<Rightarrow> string \<Rightarrow> page_event list" where
  "computePawtectForT_func env p rawBody =
     (let target = (if truthy_str (ls_pawtect_path p)
                    then (case ls_pawtect_path p of Some c \<Rightarrow> c | None \<Rightarrow> fallback_chunk)
                    else fallback_chunk)
      in case dynamic_import env target of
           None \<Rightarrow> [Import target]
         | Some md \<Rightarrow>
             if \<not> has_init md \<or> \<not> init_ok md then [Import target]
             else
               (case run_payload md (backend @ ''/s0/pixel/1/1'') rawBody of
                  None \<Rightarrow> [Import target, FetchMe]
                | Some r \<Rightarrow>
                    (case decode_out (text_decode env) r of
                       Threw \<Rightarrow> [Import target, FetchMe]
                     | Returned d \<Rightarrow>
                         [Import target, FetchMe,
                          PostMessage token_type
                            (case d of Some t \<Rightarrow> TokenString t | None \<Rightarrow> TokenUndefined) ''simple''])))"

text \<open>The origin tag of a posted message; other events carry none.\<close>

definition origin_tags :: "page_event list \<Rightarrow> string list" where
  "origin_tags es = concat (map (\<lambda>e. case e of PostMessage ty tok og \<Rightarrow> [og] | _ \<Rightarrow> []) es)"

section \<open>Request interceptor\<close>

text \<open>
  The body of the \<^verbatim>\<open>fetch\<close> hook before its last line (lines 513-532): the calls of
  \<^verbatim>\<open>computePawtect\<close> it makes. The calls are not awaited. A \<^verbatim>\<open>Request\<close> constructor
  that throws, and a clone that cannot be read, are caught and leave no call.
\<close>

definition fetch_hook :: "page_env \<Rightarrow> fetch_args \<Rightarrow> page_event list" where
  "fetch_hook env args =
     (case new_Request env args of
        None \<Rightarrow> []
      | Some req \<Rightarrow>
          if req_method req = ''POST'' \<and> is_pixel_url (req_url req) then
            (let raw = (case arg_init_body args of Some (StringBody b) \<Rightarrow> Some b | _ \<Rightarrow> None)
             in if truthy_str raw then
                  (case raw of Some b \<Rightarrow> [ComputePawtect (req_url req) b] | None \<Rightarrow> [])
                else
                  (case req_clone_text req of
                     Some t \<Rightarrow> [ComputePawtect (req_url req) t]
                   | None \<Rightarrow> []))
          else [])"

text \<open>
  Calling \<^verbatim>\<open>window.fetch\<close>: a hook runs its own part and then, on line 533, calls the
  function it closed over with the same arguments.
\<close>

fun call_fetch :: "page_env \<Rightarrow> fetch_fn \<Rightarrow> fetch_args \<Rightarrow> page_event list" where
  "call_fetch env NativeFetch args = [NetworkFetch args]"
| "call_fetch env (HookedFetch originalFetch) args =
     fetch_hook env args @ call_fetch env originalFetch args"

text \<open>
  The \<^verbatim>\<open>XMLHttpRequest\<close> hooks (lines 536-567). \<^verbatim>\<open>open\<close> remembers the resolved
  URL and the method on the object, unless the URL does not resolve (\<open>None\<close>).
  \<^verbatim>\<open>send\<close> looks at the body: a string, an \<^verbatim>\<open>ArrayBuffer\<close>, a view on a buffer
  (decoded whole), an object with a \<^verbatim>\<open>text\<close> method (its result, \<open>None\<close> when it
  rejects), or anything else.
\<close>

record xhr_object =
  wplacer_url :: "string option"
  wplacer_method :: "string option"

datatype xhr_body =
    XhrString string
  | XhrArrayBuffer "byte list"
  | XhrTypedArray "byte list"
  | XhrBlob "string option"
  | XhrOther

definition xhr_open_hook :: "(string \<Rightarrow> string option) \<Rightarrow> string \<Rightarrow> string \<Rightarrow> xhr_object \<Rightarrow> xhr_object" where
  "xhr_open_hook resolve method url x =
     (case resolve url of
        None \<Rightarrow> x
      | Some h \<Rightarrow> x\<lparr> wplacer_url := Some h, wplacer_method := Some method \<rparr>)"

definition maybeCompute :: "string \<Rightarrow> string \<Rightarrow> page_event list" where
  "maybeCompute url raw = (if raw \<noteq> [] then [ComputePawtect url raw] else [])"

definition xhr_send_hook :: "page_env \<Rightarrow> xhr_object \<Rightarrow> xhr_body \<Rightarrow> page_event list" where
  "xhr_send_hook env x body =
     (let m = (case wplacer_method x of Some v \<Rightarrow> v | None \<Rightarrow> []);
          url = (case wplacer_url x of Some v \<Rightarrow> v | None \<Rightarrow> [])
      in if map upper_char m = ''POST'' \<and> is_pixel_url url then
           (case body of
              XhrString b \<Rightarrow> maybeCompute url b
            | XhrArrayBuffer bs \<Rightarrow> maybeCompute url (text_decode env bs)
            | XhrTypedArray buf \<Rightarrow> maybeCompute url (text_decode env buf)
            | XhrBlob t \<Rightarrow> (case t of Some b \<Rightarrow> maybeCompute url b | None \<Rightarrow> [])
            | XhrOther \<Rightarrow> [])
         else [])"

fun call_send :: "page_env \<Rightarrow> xhr_fn \<Rightarrow> xhr_object \<Rightarrow> xhr_body \<Rightarrow> page_event list" where
  "call_send env NativeXhr x body = [NetworkSend]"
| "call_send env (HookedXhr origSend) x body = xhr_send_hook env x body @ call_send env origSend x body"

text \<open>
  The page function of \<^verbatim>\<open>injectPawtect\<close> (lines 346-569), as far as it changes the
  page: the guard on the flag, the flag, and the replacement of \<^verbatim>\<open>window.fetch\<close> and
  of the two \<^verbatim>\<open>XMLHttpRequest\<close> methods.
\<close>

definition injectPawtect_func :: "page_state \<Rightarrow> page_state" where
  "injectPawtect_func p =
     (if hooked p then p
      else p\<lparr> hooked := True, window_fetch := HookedFetch (window_fetch p),
              xhr_methods := (case xhr_methods p of None \<Rightarrow> None | Some x \<Rightarrow> Some (HookedXhr x)) \<rparr>)"

fun hook_depth :: "fetch_fn \<Rightarrow> nat" where
  "hook_depth NativeFetch = 0"
| "hook_depth (HookedFetch f) = Suc (hook_depth f)"

definition compute_calls :: "page_event list \<Rightarrow> (string \<times> string) list" where
  "compute_calls es = concat (map (\<lambda>e. case e of ComputePawtect u b \<Rightarrow> [(u, b)] | _ \<Rightarrow> []) es)"


section \<open>Concrete inputs\<close>

text \<open>Storage in which no setting was ever written: both switches default to on.\<close>

definition default_storage :: storage where
  "default_storage = \<lparr> wplacerPort = None, autoReload = None, autoClear = None \<rparr>"

definition tick :: "int \<Rightarrow> int \<Rightarrow> int \<Rightarrow> poll_env" where
  "tick a b c =
     \<lparr> pe_storage = Some default_storage, pe_reply = Needed True,
       now_check = a, now_reset = b, now_after_reload = c \<rparr>"


definition waiting_since :: "int \<Rightarrow> bg_state" where
  "waiting_since t0 =
     \<lparr> tokenWaitStartTime = Some t0, autoReloadEnabled = True, autoClearEnabled = True \<rparr>"





text \<open>A module whose call returns the given value over the given memory.\<close>

definition module_giving :: "wasm_out \<Rightarrow> byte list \<Rightarrow> pawtect_module" where
  "module_giving out mem =
     \<lparr> has_init = True, init_ok = True,
       run_payload = (\<lambda>url bodyStr. Some \<lparr> run_out = out, run_memory = mem \<rparr>) \<rparr>"

text \<open>An environment in which every import yields the given module.\<close>

definition with_module :: "page_env \<Rightarrow> pawtect_module \<Rightarrow> page_env" where
  "with_module env md = env\<lparr> dynamic_import := (\<lambda>u. Some md) \<rparr>"

definition ascii_decode :: "byte list \<Rightarrow> string" where
  "ascii_decode bs = map (\<lambda>b. char_of (unat b)) bs"

definition chunk_a :: string where
  "chunk_a = ''/_app/immutable/chunks/a.js''"

definition chunk_b :: string where
  "chunk_b = ''/_app/immutable/chunks/b.js''"

definition sig_text :: string where
  "sig_text = ''__wbindgen_malloc''"

text \<open>
  A \<^verbatim>\<open>Request\<close> constructor for \<^verbatim>\<open>POST\<close> calls: a string body reads back as itself,
  a body that is not a string cannot be read, no body reads as the empty string.
\<close>

definition post_request :: "fetch_args \<Rightarrow> js_request option" where
  "post_request a =
     Some \<lparr> req_method = ''POST'', req_url = arg_input a,
            req_clone_text = (case arg_init_body a of
                                Some (StringBody b) \<Rightarrow> Some b
                              | Some OtherBody \<Rightarrow> None
                              | None \<Rightarrow> Some []) \<rparr>"

text \<open>
  A page with the scripts \<^verbatim>\<open>/x.js\<close>, \<open>chunk_a\<close> and \<open>chunk_b\<close> (the two chunks are
  listed again by a preload link and a resource entry); only \<open>chunk_b\<close> can be fetched,
  and it carries the signature. The imports are a parameter.
\<close>

definition scan_env :: "(string \<Rightarrow> pawtect_module option) \<Rightarrow> page_env" where
  "scan_env imp =
     \<lparr> location_origin = ''https://wplace.live'',
       script_srcs = [Some ''/x.js'', Some chunk_a, None, Some chunk_b],
       link_hrefs = [Some chunk_a],
       resource_entries = Some [chunk_b, []],
       fetch_resource = (\<lambda>u. if u = chunk_b then ResponseText sig_text else ResponseNotOk),
       dynamic_import = imp,
       text_decode = ascii_decode,
       new_Request = post_request \<rparr>"

definition fresh_page :: page_state where
  "fresh_page =
     \<lparr> hooked = False, ls_pawtect_path = None, pawtectChunk = None,
       window_fetch = NativeFetch, xhr_methods = Some NativeXhr \<rparr>"


definition pixel_body :: string where
  \<open>pixel_body = ''{"colors":[0],"coords":[1,1],"fp":"x","t":"y"}''\<close>

definition pixel_post :: "js_body option \<Rightarrow> fetch_args" where
  "pixel_post b =
     \<lparr> arg_input = ''/s0/pixel/1/1'', arg_init_body = b, arg_init_rest = [(''method'', ''POST'')] \<rparr>"

section \<open>Properties of the tracker\<close>

text \<open>A tick in the waiting state, with settings read and a token needed, written out.\<close>

lemma waiting_tick_unfold:
  assumes "pe_storage env = Some r" and "pe_reply env = Needed True"
    and "tokenWaitStartTime s = Some t0" and "t0 \<noteq> 0"
  shows "pollForTokenRequest env s =
     (let od = (now_check env - t0 > 30000 \<and> setting_autoClear r);
          start = (if od then now_reset env else t0)
      in (s\<lparr> autoReloadEnabled := setting_autoReload r, autoClearEnabled := setting_autoClear r,
             tokenWaitStartTime := Some start \<rparr>,
          [TokenStatusChanged True (Some ((now_check env - t0) div 1000))] @
          (if od then [ClearPawtectCache] else []) @
          (if setting_autoReload r then
             InitiateReload #
               (if setting_autoClear r \<and> now_after_reload env - start > 15000
                then [ClearPawtectCache] else [])
           else [])))"
  using assms
  by (simp add: pollForTokenRequest_def getSettings_def wait_phase_def reload_phase_def
      truthy_num_def to_number_def TOKEN_WAIT_THRESHOLD_MS_def setting_autoClear_def
      setting_autoReload_def Let_def)

text \<open>
  C1, as stated, fails: the claim lets the overdue transition fire from an elapsed time of
  30000 ms on. The timer started at 1000, the tick reads the clock at 31000, auto-clear
  is on, and the transition does not fire: line 79 compares with \<^verbatim>\<open>>\<close>.
\<close>

theorem overdue_at_threshold_counterexample:
  "tokenWaitStartTime (waiting_since 1000) = Some 1000 \<and>
   now_check (tick 31000 31000 31000) - 1000 \<ge> 30000 \<and>
   setting_autoClear default_storage \<and>
   \<not> overdue_fired (snd (pollForTokenRequest (tick 31000 31000 31000) (waiting_since 1000)))"
  by (simp add: pollForTokenRequest_def getSettings_def wait_phase_def reload_phase_def
      truthy_num_def to_number_def TOKEN_WAIT_THRESHOLD_MS_def setting_autoClear_def
      tick_def waiting_since_def default_storage_def overdue_fired_def Let_def)

text \<open>
  C1, amended: on every poll tick in the waiting state that finds a token still needed
  (settings read, timer running since \<open>t0\<close>) the overdue transition fires if and only if more than 30000 ms
  have elapsed since \<open>t0\<close> and auto-clear is enabled. When it fires the cache clear is
  issued before the reload and the timer restarts at the clock reading taken after the
  clear; when it does not, the timer is unchanged. It does not fire at 29999 ms and it
  fires at 30001 ms with auto-clear enabled.
\<close>

theorem overdue_transition_iff:
  assumes "pe_storage env = Some r" and "pe_reply env = Needed True"
    and "tokenWaitStartTime s = Some t0" and "t0 \<noteq> 0"
  shows "(overdue_fired (snd (pollForTokenRequest env s)) \<longleftrightarrow>
            now_check env - t0 > 30000 \<and> setting_autoClear r) \<and>
         takeWhile (\<lambda>e. e \<noteq> InitiateReload) (snd (pollForTokenRequest env s)) =
           TokenStatusChanged True (Some ((now_check env - t0) div 1000)) #
           (if now_check env - t0 > 30000 \<and> setting_autoClear r then [ClearPawtectCache] else []) \<and>
         tokenWaitStartTime (fst (pollForTokenRequest env s)) =
           Some (if now_check env - t0 > 30000 \<and> setting_autoClear r then now_reset env else t0) \<and>
         (now_check env - t0 = 29999 \<longrightarrow> \<not> overdue_fired (snd (pollForTokenRequest env s))) \<and>
         (now_check env - t0 = 30001 \<and> setting_autoClear r \<longrightarrow>
            overdue_fired (snd (pollForTokenRequest env s)))"
  unfolding waiting_tick_unfold [OF assms]
  by (simp add: overdue_fired_def Let_def)

theorem overdue_transition_iff_witness:
  "overdue_fired (snd (pollForTokenRequest (tick 31001 31002 31003) (waiting_since 1000))) \<and>
   tokenWaitStartTime (fst (pollForTokenRequest (tick 31001 31002 31003) (waiting_since 1000))) = Some 31002 \<and>
   \<not> overdue_fired (snd (pollForTokenRequest (tick 30999 31002 31003) (waiting_since 1000)))"
  using overdue_transition_iff [of "tick 31001 31002 31003" default_storage "waiting_since 1000" 1000]
    overdue_transition_iff [of "tick 30999 31002 31003" default_storage "waiting_since 1000" 1000]
  by (simp add: tick_def waiting_since_def default_storage_def setting_autoClear_def)

text \<open>
  When both clears of one waiting tick fire: the overdue clear has restarted the timer
  at \<open>now_reset\<close>, so the clear after the reload needs more than 15000 ms between that
  reading and the one taken after the reload.
\<close>

lemma both_clears_iff:
  assumes "pe_storage env = Some r" and "pe_reply env = Needed True"
    and "tokenWaitStartTime s = Some t0" and "t0 \<noteq> 0"
  shows "overdue_fired (snd (pollForTokenRequest env s)) \<and>
         half_clear_fired (snd (pollForTokenRequest env s)) \<longleftrightarrow>
         now_check env - t0 > 30000 \<and> setting_autoClear r \<and> setting_autoReload r \<and>
         now_after_reload env - now_reset env > 15000"
  unfolding waiting_tick_unfold [OF assms]
  by (auto simp add: overdue_fired_def half_clear_fired_def Let_def)










section \<open>Properties of the module locator\<close>

lemma foldl_set_add:
  "distinct acc \<Longrightarrow> foldl set_add acc xs = rev (remdups (rev xs @ rev acc))"
proof (induction xs arbitrary: acc)
  case Nil
  then show ?case by (simp add: distinct_remdups_id)
next
  case (Cons x xs)
  show ?case
  proof (cases "x \<in> set acc")
    case True
    have "remdups (rev xs @ x # rev acc) = remdups (rev xs @ remdups (x # rev acc))"
      by (simp only: remdups_append2)
    also have "\<dots> = remdups (rev xs @ remdups (rev acc))"
      using True by simp
    also have "\<dots> = remdups (rev xs @ rev acc)"
      by (simp only: remdups_append2)
    finally show ?thesis
      using True Cons by (simp add: set_add_def)
  next
    case False
    with Cons show ?thesis by (simp add: set_add_def)
  qed
qed

lemma collect_urls_first_occurrences:
  "collect_urls env = rev (remdups (rev (enumerated_urls env)))"
  by (simp add: collect_urls_def foldl_set_add)

lemma collect_urls_distinct_id:
  "distinct (enumerated_urls env) \<Longrightarrow> collect_urls env = enumerated_urls env"
  by (simp add: collect_urls_first_occurrences distinct_remdups_id)

lemma scan_candidates_none:
  "(\<forall>u\<in>set us. \<not> candidate_matches env u) \<Longrightarrow>
   scan_candidates env us p = (None, p, map ScanFetch us)"
  by (induction us) simp_all

lemma scan_candidates_first:
  "(\<forall>x\<in>set xs. \<not> candidate_matches env x) \<Longrightarrow> candidate_matches env u \<Longrightarrow>
   scan_candidates env (xs @ u # ys) p =
     (Some u, p\<lparr> ls_pawtect_path := Some u, pawtectChunk := Some u \<rparr>, map ScanFetch (xs @ [u]))"
  by (induction xs) simp_all

lemma scan_candidates_member:
  "scan_candidates env us p = (Some u, p', es) \<Longrightarrow> u \<in> set us"
  by (induction us arbitrary: es) (auto split: if_splits prod.splits)

lemma is_chunk_url_nonempty: "is_chunk_url u \<Longrightarrow> u \<noteq> []"
  by (auto simp add: is_chunk_url_def)

lemma discover_nonempty:
  assumes "discoverPawtectChunk env p = (Some u, p', es)"
  shows "u \<noteq> []"
proof -
  from assms have "u \<in> set (chunkCandidates env)"
    unfolding discoverPawtectChunk_def by (rule scan_candidates_member)
  then have "is_chunk_url u"
    by (simp add: chunkCandidates_def)
  then show ?thesis by (rule is_chunk_url_nonempty)
qed

lemma chunk_a_candidate: "is_chunk_url chunk_a"
  by (simp add: chunk_a_def is_chunk_url_def chunks_dir_def upper_char_def js_suffix_def
      line_terminator_def)

lemma chunk_b_candidate: "is_chunk_url chunk_b"
  by (simp add: chunk_b_def is_chunk_url_def chunks_dir_def upper_char_def js_suffix_def
      line_terminator_def)

lemma x_js_no_candidate: "\<not> is_chunk_url ''/x.js''"
  by (simp add: is_chunk_url_def chunks_dir_def upper_char_def)

lemma sig_text_signature: "has_signature sig_text"
  by (simp add: sig_text_def has_signature_def contains_ci_def upper_char_def)

lemma chunk_a_b_differ: "chunk_a \<noteq> chunk_b"
  by (simp add: chunk_a_def chunk_b_def)

lemma scan_env_candidates: "chunkCandidates (scan_env imp) = [chunk_a, chunk_b]"
proof -
  have ne: "chunk_a \<noteq> ''/x.js''" "chunk_b \<noteq> ''/x.js''" "chunk_b \<noteq> []"
    by (simp_all add: chunk_a_def chunk_b_def)
  have "collect_urls (scan_env imp) = [''/x.js'', chunk_a, chunk_b]"
    using ne chunk_a_b_differ
    by (simp add: collect_urls_def enumerated_urls_def scan_env_def set_add_def)
  then show ?thesis
    by (simp add: chunkCandidates_def chunk_a_candidate chunk_b_candidate x_js_no_candidate)
qed

lemma scan_env_matches:
  "\<not> candidate_matches (scan_env imp) chunk_a" "candidate_matches (scan_env imp) chunk_b"
  using chunk_a_b_differ
  by (simp_all add: candidate_matches_def scan_env_def sig_text_signature)

text \<open>
  C7: the candidates are the enumerated URLs that pass the path pattern, in enumeration
  order (first occurrences, nothing sorted). The scan fetches them in that order, each
  once. It returns the first candidate whose contents carry the signature, after storing
  it under the durable key and in the page variable, and fetches nothing after it. When
  no candidate matches it returns \<^verbatim>\<open>null\<close> after one pass and stores nothing.
\<close>

theorem discovery_first_match:
  "chunkCandidates env = filter is_chunk_url (rev (remdups (rev (enumerated_urls env)))) \<and>
   (distinct (enumerated_urls env) \<longrightarrow>
      chunkCandidates env = filter is_chunk_url (enumerated_urls env)) \<and>
   ((\<forall>u\<in>set (chunkCandidates env). \<not> candidate_matches env u) \<longrightarrow>
      discoverPawtectChunk env p = (None, p, map ScanFetch (chunkCandidates env))) \<and>
   (chunkCandidates env = xs @ u # ys \<and> (\<forall>x\<in>set xs. \<not> candidate_matches env x) \<and>
    candidate_matches env u \<longrightarrow>
      discoverPawtectChunk env p =
        (Some u, p\<lparr> ls_pawtect_path := Some u, pawtectChunk := Some u \<rparr>,
         map ScanFetch (xs @ [u])))"
proof (intro conjI impI)
  show "chunkCandidates env = filter is_chunk_url (rev (remdups (rev (enumerated_urls env))))"
    by (simp add: chunkCandidates_def collect_urls_first_occurrences)
next
  assume "distinct (enumerated_urls env)"
  then show "chunkCandidates env = filter is_chunk_url (enumerated_urls env)"
    by (simp add: chunkCandidates_def collect_urls_distinct_id)
next
  assume "\<forall>u\<in>set (chunkCandidates env). \<not> candidate_matches env u"
  then show "discoverPawtectChunk env p = (None, p, map ScanFetch (chunkCandidates env))"
    unfolding discoverPawtectChunk_def by (rule scan_candidates_none)
next
  assume a: "chunkCandidates env = xs @ u # ys \<and> (\<forall>x\<in>set xs. \<not> candidate_matches env x) \<and>
    candidate_matches env u"
  then have "scan_candidates env (xs @ u # ys) p =
      (Some u, p\<lparr> ls_pawtect_path := Some u, pawtectChunk := Some u \<rparr>, map ScanFetch (xs @ [u]))"
    by (intro scan_candidates_first) simp_all
  with a show "discoverPawtectChunk env p =
        (Some u, p\<lparr> ls_pawtect_path := Some u, pawtectChunk := Some u \<rparr>,
         map ScanFetch (xs @ [u]))"
    by (simp add: discoverPawtectChunk_def)
qed

theorem discovery_first_match_witness:
  "discoverPawtectChunk (scan_env (\<lambda>u. None)) fresh_page =
     (Some chunk_b, fresh_page\<lparr> ls_pawtect_path := Some chunk_b, pawtectChunk := Some chunk_b \<rparr>,
      [ScanFetch chunk_a, ScanFetch chunk_b])"
proof -
  have "chunkCandidates (scan_env (\<lambda>u. None)) = [chunk_a] @ chunk_b # [] \<and>
        (\<forall>x\<in>set [chunk_a]. \<not> candidate_matches (scan_env (\<lambda>u. None)) x) \<and>
        candidate_matches (scan_env (\<lambda>u. None)) chunk_b"
    by (simp add: scan_env_candidates scan_env_matches)
  with discovery_first_match [where env = "scan_env (\<lambda>u. None)" and xs = "[chunk_a]"
      and u = chunk_b and ys = "[]" and p = fresh_page]
  show ?thesis by simp
qed


lemma try_imports_none:
  "(\<forall>u\<in>set us. dynamic_import env u = None) \<Longrightarrow> try_imports env us = (None, map Import us)"
  by (induction us) simp_all

lemma try_imports_first:
  "(\<forall>x\<in>set xs. dynamic_import env x = None) \<Longrightarrow> dynamic_import env u = Some m \<Longrightarrow>
   try_imports env (xs @ u # ys) = (Some m, map Import (xs @ [u]))"
  by (induction xs) simp_all


lemma try_imports_cases:
  "(\<exists>m vs. try_imports env us = (Some m, map Import vs)) \<or>
   (try_imports env us = (None, map Import us) \<and> (\<forall>u\<in>set us. dynamic_import env u = None))"
proof (induction us)
  case Nil
  then show ?case by simp
next
  case (Cons u us)
  show ?case
  proof (cases "dynamic_import env u")
    case (Some m)
    then have "try_imports env (u # us) = (Some m, map Import [u])" by simp
    then show ?thesis by blast
  next
    case None
    from Cons show ?thesis
    proof
      assume "\<exists>m vs. try_imports env us = (Some m, map Import vs)"
      then obtain m vs where "try_imports env us = (Some m, map Import vs)" by blast
      with None have "try_imports env (u # us) = (Some m, map Import (u # vs))" by simp
      then show ?thesis by blast
    next
      assume "try_imports env us = (None, map Import us) \<and> (\<forall>u\<in>set us. dynamic_import env u = None)"
      with None show ?thesis by simp
    qed
  qed
qed


lemma fast_path_list:
  "fast_path env p =
     (case fst (getOptimizedPawtectUrl p) of Some c \<Rightarrow> [c] | None \<Rightarrow> []) @
     [location_origin env @ fallback_chunk, ''https://wplace.live'' @ fallback_chunk]"
  by (simp add: fast_path_def fastCandidates_def getOptimizedPawtectUrl_def truthy_str_def
      split: option.splits)

lemma importModule_fast:
  assumes "fast_path env p = xs @ u # ys" and "\<forall>x\<in>set xs. dynamic_import env x = None"
    and "dynamic_import env u = Some m"
  shows "importModule env p =
     (Returned (Some m), snd (getOptimizedPawtectUrl p), map Import (xs @ [u]))"
proof -
  obtain c p1 where g: "getOptimizedPawtectUrl p = (c, p1)" by (cases "getOptimizedPawtectUrl p")
  with assms(1) have "fastCandidates env c = xs @ u # ys" by (simp add: fast_path_def)
  with assms(2,3) have "try_imports env (fastCandidates env c) = (Some m, map Import (xs @ [u]))"
    by (simp add: try_imports_first)
  with g show ?thesis by (simp add: importModule_def)
qed

lemma importModule_slow:
  assumes "\<forall>x\<in>set (fast_path env p). dynamic_import env x = None"
  shows "\<exists>d p2 ds. discoverPawtectChunk env (snd (getOptimizedPawtectUrl p)) = (d, p2, ds) \<and>
     importModule env p =
       (Returned (case d of None \<Rightarrow> None | Some x \<Rightarrow> dynamic_import env x), p2,
        map Import (fast_path env p) @ ds @ (case d of None \<Rightarrow> [] | Some x \<Rightarrow> [Import x]))"
proof -
  obtain c p1 where g: "getOptimizedPawtectUrl p = (c, p1)" by (cases "getOptimizedPawtectUrl p")
  obtain d p2 ds where dis: "discoverPawtectChunk env p1 = (d, p2, ds)"
    by (cases "discoverPawtectChunk env p1")
  from assms g have t: "try_imports env (fastCandidates env c) = (None, map Import (fastCandidates env c))"
    by (simp add: fast_path_def try_imports_none)
  have "importModule env p =
       (Returned (case d of None \<Rightarrow> None | Some x \<Rightarrow> dynamic_import env x), p2,
        map Import (fastCandidates env c) @ ds @ (case d of None \<Rightarrow> [] | Some x \<Rightarrow> [Import x]))"
  proof (cases d)
    case None
    with g t dis show ?thesis by (simp add: importModule_def truthy_str_def)
  next
    case (Some x)
    with dis have "x \<noteq> []" by (simp add: discover_nonempty)
    with Some g t dis show ?thesis
      by (simp add: importModule_def truthy_str_def split: option.splits)
  qed
  with g dis show ?thesis by (simp add: fast_path_def)
qed






section \<open>Properties of the invocation bridge\<close>

lemma uint8_view_in_range:
  "0 \<le> ptr \<Longrightarrow> 0 \<le> len \<Longrightarrow> ptr + len \<le> int (length mem) \<Longrightarrow>
   uint8_view mem (Some ptr) (Some len) = Some (take (nat len) (drop (nat ptr) mem))"
  by (simp add: uint8_view_def)

lemma decode_out_pair_object:
  "decode_out dec \<lparr> run_out = OutArray [ptr, len], run_memory = mem \<rparr> =
   decode_out dec \<lparr> run_out = OutObject (Some ptr) (Some len), run_memory = mem \<rparr>"
  by (simp add: decode_out_def element_def)

lemma decode_out_object_in_range:
  "0 \<le> ptr \<Longrightarrow> 0 \<le> len \<Longrightarrow> ptr + len \<le> int (length mem) \<Longrightarrow>
   decode_out dec \<lparr> run_out = OutObject (Some ptr) (Some len), run_memory = mem \<rparr> =
     Returned (Some (dec (take (nat len) (drop (nat ptr) mem))))"
  by (simp add: decode_out_def uint8_view_in_range)

lemma decode_out_string:
  "decode_out dec \<lparr> run_out = OutString t, run_memory = mem \<rparr> = Returned (Some t)"
  by (simp add: decode_out_def)

lemma fast_path_with_module: "fast_path (with_module env md) p = fast_path env p"
  by (simp add: fast_path_def fastCandidates_def with_module_def)

lemma fast_path_nonempty: "\<exists>u us. fast_path env p = u # us"
  by (cases "fst (getOptimizedPawtectUrl p)") (simp_all add: fast_path_list)

lemma importModule_with_module:
  "importModule (with_module env md) p =
     (Returned (Some md), snd (getOptimizedPawtectUrl p), [Import (hd (fast_path env p))])"
proof -
  obtain u us where f: "fast_path env p = u # us"
    using fast_path_nonempty by blast
  then have "fast_path (with_module env md) p = [] @ u # us"
    by (simp add: fast_path_with_module)
  moreover have "dynamic_import (with_module env md) u = Some md"
    by (simp add: with_module_def)
  ultimately have "importModule (with_module env md) p =
     (Returned (Some md), snd (getOptimizedPawtectUrl p), map Import ([] @ [u]))"
    by (intro importModule_fast) simp_all
  with f show ?thesis by simp
qed

text \<open>Once the module is there and initialised, the rest of the call is the decoding.\<close>

lemma computePawtect_after_import:
  assumes "importModule env p = (Returned (Some md), p', es)" and "has_init md" and "init_ok md"
    and "run_payload md url bodyStr = Some r"
  shows "computePawtect env p url bodyStr =
     (case decode_out (text_decode env) r of
        Threw \<Rightarrow> (Threw, p', es @ [FetchMe])
      | Returned d \<Rightarrow>
          (Returned (case d of Some t \<Rightarrow> TokenString t | None \<Rightarrow> TokenNull), p',
           es @ [FetchMe,
                 PostMessage token_type (case d of Some t \<Rightarrow> TokenString t | None \<Rightarrow> TokenNull)
                   ''pixel'']))"
  using assms by (simp add: computePawtect_def Let_def split: completion.splits)

lemma computePawtect_module_giving:
  "computePawtect (with_module env (module_giving out mem)) p url bodyStr =
     (case decode_out (text_decode env) \<lparr> run_out = out, run_memory = mem \<rparr> of
        Threw \<Rightarrow> (Threw, snd (getOptimizedPawtectUrl p), [Import (hd (fast_path env p))] @ [FetchMe])
      | Returned d \<Rightarrow>
          (Returned (case d of Some t \<Rightarrow> TokenString t | None \<Rightarrow> TokenNull),
           snd (getOptimizedPawtectUrl p),
           [Import (hd (fast_path env p))] @
           [FetchMe,
            PostMessage token_type (case d of Some t \<Rightarrow> TokenString t | None \<Rightarrow> TokenNull)
              ''pixel'']))"
proof -
  have "text_decode (with_module env (module_giving out mem)) = text_decode env"
    by (simp add: with_module_def)
  with computePawtect_after_import [OF importModule_with_module,
      of "module_giving out mem" url bodyStr "\<lparr> run_out = out, run_memory = mem \<rparr>" env p]
  show ?thesis by (simp add: module_giving_def)
qed

text \<open>
  C5: for output bytes that lie inside the module's memory at \<open>ptr\<close> with length
  \<open>len\<close>, the pair \<^verbatim>\<open>[ptr, len]\<close>, the object with \<^verbatim>\<open>ptr\<close> and \<^verbatim>\<open>len\<close>, and the string
  that is the decoding of those bytes all decode to that one string, and
  \<^verbatim>\<open>computePawtect\<close> returns and posts the same token for the three. The pair and the
  object agree on every input, also outside the memory, where both raise.
\<close>

theorem output_shapes_agree:
  "decode_out dec \<lparr> run_out = OutArray [ptr, len], run_memory = mem \<rparr> =
   decode_out dec \<lparr> run_out = OutObject (Some ptr) (Some len), run_memory = mem \<rparr> \<and>
   (0 \<le> ptr \<and> 0 \<le> len \<and> ptr + len \<le> int (length mem) \<longrightarrow>
      decode_out dec \<lparr> run_out = OutArray [ptr, len], run_memory = mem \<rparr> =
        Returned (Some (dec (take (nat len) (drop (nat ptr) mem)))) \<and>
      decode_out dec \<lparr> run_out = OutObject (Some ptr) (Some len), run_memory = mem \<rparr> =
        Returned (Some (dec (take (nat len) (drop (nat ptr) mem)))) \<and>
      decode_out dec \<lparr> run_out = OutString (dec (take (nat len) (drop (nat ptr) mem))),
                       run_memory = mem \<rparr> =
        Returned (Some (dec (take (nat len) (drop (nat ptr) mem)))) \<and>
      computePawtect (with_module env (module_giving (OutArray [ptr, len]) mem)) p url bodyStr =
        computePawtect (with_module env (module_giving (OutObject (Some ptr) (Some len)) mem))
          p url bodyStr \<and>
      computePawtect (with_module env (module_giving (OutArray [ptr, len]) mem)) p url bodyStr =
        computePawtect
          (with_module env
             (module_giving (OutString (text_decode env (take (nat len) (drop (nat ptr) mem)))) mem))
          p url bodyStr \<and>
      fst (computePawtect (with_module env (module_giving (OutArray [ptr, len]) mem)) p url bodyStr) =
        Returned (TokenString (text_decode env (take (nat len) (drop (nat ptr) mem)))))"
proof (intro conjI impI)
  show "decode_out dec \<lparr> run_out = OutArray [ptr, len], run_memory = mem \<rparr> =
   decode_out dec \<lparr> run_out = OutObject (Some ptr) (Some len), run_memory = mem \<rparr>"
    by (rule decode_out_pair_object)
next
  assume a: "0 \<le> ptr \<and> 0 \<le> len \<and> ptr + len \<le> int (length mem)"
  then show o: "decode_out dec \<lparr> run_out = OutObject (Some ptr) (Some len), run_memory = mem \<rparr> =
        Returned (Some (dec (take (nat len) (drop (nat ptr) mem))))"
    by (simp add: decode_out_object_in_range)
  then show "decode_out dec \<lparr> run_out = OutArray [ptr, len], run_memory = mem \<rparr> =
        Returned (Some (dec (take (nat len) (drop (nat ptr) mem))))"
    by (simp add: decode_out_pair_object)
  show "decode_out dec \<lparr> run_out = OutString (dec (take (nat len) (drop (nat ptr) mem))),
                       run_memory = mem \<rparr> =
        Returned (Some (dec (take (nat len) (drop (nat ptr) mem))))"
    by (rule decode_out_string)
  show "computePawtect (with_module env (module_giving (OutArray [ptr, len]) mem)) p url bodyStr =
        computePawtect (with_module env (module_giving (OutObject (Some ptr) (Some len)) mem))
          p url bodyStr"
    by (simp only: computePawtect_module_giving decode_out_pair_object)
  from a have e: "decode_out (text_decode env) \<lparr> run_out = OutArray [ptr, len], run_memory = mem \<rparr> =
        Returned (Some (text_decode env (take (nat len) (drop (nat ptr) mem))))"
    by (simp add: decode_out_pair_object decode_out_object_in_range)
  show "computePawtect (with_module env (module_giving (OutArray [ptr, len]) mem)) p url bodyStr =
        computePawtect
          (with_module env
             (module_giving (OutString (text_decode env (take (nat len) (drop (nat ptr) mem)))) mem))
          p url bodyStr"
    by (simp only: computePawtect_module_giving e decode_out_string)
  show "fst (computePawtect (with_module env (module_giving (OutArray [ptr, len]) mem)) p url bodyStr) =
        Returned (TokenString (text_decode env (take (nat len) (drop (nat ptr) mem))))"
    by (simp add: computePawtect_module_giving e)
qed

theorem output_shapes_agree_witness:
  "decode_out ascii_decode \<lparr> run_out = OutArray [1, 2], run_memory = [0x78, 0x68, 0x69, 0x79] \<rparr> =
     Returned (Some (ascii_decode [0x68, 0x69])) \<and>
   decode_out ascii_decode \<lparr> run_out = OutObject (Some 1) (Some 2),
                             run_memory = [0x78, 0x68, 0x69, 0x79] \<rparr> =
     Returned (Some (ascii_decode [0x68, 0x69])) \<and>
   decode_out ascii_decode \<lparr> run_out = OutString (ascii_decode [0x68, 0x69]),
                             run_memory = [0x78, 0x68, 0x69, 0x79] \<rparr> =
     Returned (Some (ascii_decode [0x68, 0x69]))"
proof -
  have r: "(0::int) \<le> 1 \<and> (0::int) \<le> 2 \<and> (1::int) + 2 \<le> int (length [0x78, 0x68, 0x69, 0x79 :: byte])"
    by simp
  have t: "take (nat 2) (drop (nat 1) [0x78, 0x68, 0x69, 0x79 :: byte]) = [0x68, 0x69]"
    by (simp add: numeral_2_eq_2)
  from r output_shapes_agree [where dec = ascii_decode and ptr = 1 and len = 2
      and mem = "[0x78, 0x68, 0x69, 0x79]"]
  show ?thesis unfolding t by blast
qed

text \<open>
  C10: when the module is imported and initialised and the call returns a value that is
  no array, no string and no object with numeric \<^verbatim>\<open>ptr\<close> and \<^verbatim>\<open>len\<close>,
  \<^verbatim>\<open>computePawtect\<close> still posts a message of type \<^verbatim>\<open>WPLACER_PAWTECT_TOKEN\<close> whose
  token is \<^verbatim>\<open>null\<close>, and then returns \<^verbatim>\<open>null\<close>.
\<close>

theorem unrecognized_shape_posts_null:
  assumes "importModule env p = (Returned (Some md), p', es)" and "has_init md" and "init_ok md"
    and "run_payload md url bodyStr = Some r"
    and "run_out r = OutOther \<or> run_out r = OutObject None b \<or> run_out r = OutObject a None"
  shows "computePawtect env p url bodyStr =
     (Returned TokenNull, p',
      es @ [FetchMe, PostMessage ''WPLACER_PAWTECT_TOKEN'' TokenNull ''pixel''])"
proof -
  from assms(5) have "decode_out (text_decode env) r = Returned None"
    by (auto simp add: decode_out_def split: option.splits)
  with computePawtect_after_import [OF assms(1-4)] show ?thesis
    by (simp add: token_type_def)
qed

theorem unrecognized_shape_posts_null_witness:
  "computePawtect (with_module (scan_env (\<lambda>u. None)) (module_giving OutOther [])) fresh_page
     ''u'' ''b'' =
     (Returned TokenNull, fresh_page,
      [Import (''https://wplace.live'' @ fallback_chunk), FetchMe,
       PostMessage ''WPLACER_PAWTECT_TOKEN'' TokenNull ''pixel''])"
proof -
  have g: "getOptimizedPawtectUrl fresh_page = (None, fresh_page)"
    by (simp add: getOptimizedPawtectUrl_def fresh_page_def truthy_str_def)
  have i: "importModule (with_module (scan_env (\<lambda>u. None)) (module_giving OutOther [])) fresh_page =
      (Returned (Some (module_giving OutOther [])), fresh_page,
       [Import (''https://wplace.live'' @ fallback_chunk)])"
    by (simp add: importModule_with_module g fast_path_list scan_env_def)
  have m: "has_init (module_giving OutOther [])" "init_ok (module_giving OutOther [])"
    "run_payload (module_giving OutOther []) ''u'' ''b'' = Some \<lparr> run_out = OutOther, run_memory = [] \<rparr>"
    by (simp_all add: module_giving_def)
  have o: "run_out \<lparr> run_out = OutOther, run_memory = [] \<rparr> = OutOther \<or>
           run_out \<lparr> run_out = OutOther, run_memory = [] \<rparr> = OutObject None None \<or>
           run_out \<lparr> run_out = OutOther, run_memory = [] \<rparr> = OutObject None None"
    by simp
  from unrecognized_shape_posts_null [OF i m o] show ?thesis by simp
qed

lemma origin_tags_append: "origin_tags (xs @ ys) = origin_tags xs @ origin_tags ys"
  by (simp add: origin_tags_def)

lemma origin_tags_imports: "origin_tags (map Import us) = []"
  by (induction us) (simp_all add: origin_tags_def)

lemma origin_tags_scan: "origin_tags (snd (snd (scan_candidates env us p))) = []"
  by (induction us) (simp_all add: origin_tags_def split: prod.splits)

lemma origin_tags_importModule: "origin_tags (snd (snd (importModule env p))) = []"
proof (cases "\<forall>x\<in>set (fast_path env p). dynamic_import env x = None")
  case True
  from importModule_slow [OF True] obtain d p2 ds where
    d: "discoverPawtectChunk env (snd (getOptimizedPawtectUrl p)) = (d, p2, ds)" and
    i: "snd (snd (importModule env p)) =
        map Import (fast_path env p) @ ds @ (case d of None \<Rightarrow> [] | Some x \<Rightarrow> [Import x])"
    by auto
  from d have "origin_tags ds = []"
    using origin_tags_scan [of env "chunkCandidates env" "snd (getOptimizedPawtectUrl p)"]
    by (simp add: discoverPawtectChunk_def)
  with i show ?thesis
    by (simp add: origin_tags_append origin_tags_imports origin_tags_def split: option.splits)
next
  case False
  obtain c p1 where g: "getOptimizedPawtectUrl p = (c, p1)" by (cases "getOptimizedPawtectUrl p")
  from try_imports_cases [of env "fastCandidates env c"] False g
  obtain m vs where "try_imports env (fastCandidates env c) = (Some m, map Import vs)"
    by (auto simp add: fast_path_def)
  with g have "snd (snd (importModule env p)) = map Import vs" by (simp add: importModule_def)
  then show ?thesis by (simp add: origin_tags_imports)
qed

lemma origin_tags_computePawtect:
  "set (origin_tags (snd (snd (computePawtect env p url bodyStr)))) \<subseteq> {''pixel''}"
proof -
  obtain c p' es where i: "importModule env p = (c, p', es)" by (cases "importModule env p")
  with origin_tags_importModule [of env p] have e: "origin_tags es = []" by simp
  from i e show ?thesis
    by (auto simp add: computePawtect_def origin_tags_append origin_tags_def Let_def
        split: completion.splits option.splits)
qed

text \<open>
  C8, as stated, fails: the page function of \<^verbatim>\<open>computePawtectForT\<close> posts its token
  with the origin tag \<^verbatim>\<open>simple\<close>, which is none of \<^verbatim>\<open>pixel\<close>, \<^verbatim>\<open>seed\<close>, \<^verbatim>\<open>manual\<close>.
\<close>

theorem origin_simple_counterexample:
  "computePawtectForT_func (with_module (scan_env (\<lambda>u. None)) (module_giving (OutString ''tok'') []))
     fresh_page ''b'' =
     [Import fallback_chunk, FetchMe, PostMessage token_type (TokenString ''tok'') ''simple''] \<and>
   ''simple'' \<notin> {''pixel'', ''seed'', ''manual''}"
  by (simp add: computePawtectForT_func_def with_module_def module_giving_def fresh_page_def
      truthy_str_def decode_out_def Let_def)

text \<open>
  C8, amended: every token message this subsystem posts carries one of the origin tags
  \<^verbatim>\<open>pixel\<close>, \<^verbatim>\<open>seed\<close>, \<^verbatim>\<open>simple\<close>: \<^verbatim>\<open>computePawtect\<close> posts only \<^verbatim>\<open>pixel\<close>, the seeding
  function only \<^verbatim>\<open>seed\<close>, the function of \<^verbatim>\<open>computePawtectForT\<close> only \<^verbatim>\<open>simple\<close>.
\<close>

theorem origin_tag_values:
  "set (origin_tags (snd (snd (computePawtect env p url bodyStr)))) \<subseteq> {''pixel''} \<and>
   set (origin_tags (seedPawtect_func env p rawBody)) \<subseteq> {''seed''} \<and>
   set (origin_tags (computePawtectForT_func env p rawBody)) \<subseteq> {''simple''} \<and>
   set (origin_tags (snd (snd (computePawtect env p url bodyStr))) @
        origin_tags (seedPawtect_func env p rawBody) @
        origin_tags (computePawtectForT_func env p rawBody)) \<subseteq> {''pixel'', ''seed'', ''simple''}"
proof -
  have a: "set (origin_tags (snd (snd (computePawtect env p url bodyStr)))) \<subseteq> {''pixel''}"
    by (rule origin_tags_computePawtect)
  have b: "set (origin_tags (seedPawtect_func env p rawBody)) \<subseteq> {''seed''}"
    by (simp add: seedPawtect_func_def origin_tags_def Let_def
        split: option.splits completion.splits)
  have c: "set (origin_tags (computePawtectForT_func env p rawBody)) \<subseteq> {''simple''}"
    by (simp add: computePawtectForT_func_def origin_tags_def Let_def
        split: option.splits completion.splits)
  from a b c show ?thesis by auto
qed

theorem origin_tag_values_witness:
  "origin_tags (seedPawtect_func (with_module (scan_env (\<lambda>u. None)) (module_giving (OutString ''tok'') []))
     fresh_page ''b'') = [''seed''] \<and>
   set (origin_tags (seedPawtect_func (with_module (scan_env (\<lambda>u. None)) (module_giving (OutString ''tok'') []))
     fresh_page ''b'')) \<subseteq> {''seed''}"
proof -
  have e: "origin_tags (seedPawtect_func
      (with_module (scan_env (\<lambda>u. None)) (module_giving (OutString ''tok'') [])) fresh_page ''b'') =
      [''seed'']"
    by (simp add: seedPawtect_func_def with_module_def module_giving_def fresh_page_def
        truthy_str_def decode_out_def Let_def origin_tags_def)
  from e origin_tag_values [of "with_module (scan_env (\<lambda>u. None)) (module_giving (OutString ''tok'') [])"
      fresh_page "''u''" "''b''" "''b''"]
  show ?thesis by blast
qed

section \<open>Properties of the request interceptor\<close>


lemma compute_calls_append: "compute_calls (xs @ ys) = compute_calls xs @ compute_calls ys"
  by (simp add: compute_calls_def)

lemma fetch_hook_shape:
  "fetch_hook env args = [] \<or> (\<exists>u b. fetch_hook env args = [ComputePawtect u b])"
  by (auto simp add: fetch_hook_def Let_def split: option.splits js_body.splits)


lemma fetch_hook_at_most_one: "length (compute_calls (fetch_hook env args)) \<le> 1"
  using fetch_hook_shape [of env args] by (auto simp add: compute_calls_def)

lemma fetch_hook_string_body:
  assumes "new_Request env args = Some req" and "req_method req = ''POST''"
    and "is_pixel_url (req_url req)" and "arg_init_body args = Some (StringBody b)" and "b \<noteq> []"
  shows "fetch_hook env args = [ComputePawtect (req_url req) b]"
  using assms by (simp add: fetch_hook_def truthy_str_def)



lemma pixel_post_url: "is_pixel_url ''/s0/pixel/1/1''"
  by (simp add: is_pixel_url_def)

lemma pixel_body_nonempty: "pixel_body \<noteq> []"
  by (simp add: pixel_body_def)




text \<open>Without the guard a second installation would double every computation call.\<close>

lemma double_hook_doubles:
  "call_fetch env (HookedFetch (HookedFetch NativeFetch)) args =
     fetch_hook env args @ fetch_hook env args @ [NetworkFetch args]"
  by simp

text \<open>
  C6: installing twice is installing once. On a page that was not hooked the second
  installation changes nothing: \<^verbatim>\<open>window.fetch\<close> and the \<^verbatim>\<open>XMLHttpRequest\<close> methods
  are wrapped once around what the page had. On a fresh page a call of \<^verbatim>\<open>fetch\<close> after
  two installations runs the hook once and reaches the network once, so a matching
  \<^verbatim>\<open>POST\<close> with a string body gives exactly one computation call.
\<close>

theorem install_idempotent:
  "injectPawtect_func (injectPawtect_func p) = injectPawtect_func p \<and>
   hooked (injectPawtect_func p) \<and>
   (\<not> hooked p \<longrightarrow>
      window_fetch (injectPawtect_func (injectPawtect_func p)) = HookedFetch (window_fetch p) \<and>
      xhr_methods (injectPawtect_func (injectPawtect_func p)) = map_option HookedXhr (xhr_methods p)) \<and>
   (\<not> hooked p \<and> window_fetch p = NativeFetch \<longrightarrow>
      hook_depth (window_fetch (injectPawtect_func (injectPawtect_func p))) = 1 \<and>
      call_fetch env (window_fetch (injectPawtect_func (injectPawtect_func p))) args =
        fetch_hook env args @ [NetworkFetch args] \<and>
      length (compute_calls
        (call_fetch env (window_fetch (injectPawtect_func (injectPawtect_func p))) args)) \<le> 1 \<and>
      (new_Request env args = Some req \<and> req_method req = ''POST'' \<and> is_pixel_url (req_url req) \<and>
       arg_init_body args = Some (StringBody b) \<and> b \<noteq> [] \<longrightarrow>
         compute_calls
           (call_fetch env (window_fetch (injectPawtect_func (injectPawtect_func p))) args) =
           [(req_url req, b)]))"
proof (intro conjI impI)
  show "injectPawtect_func (injectPawtect_func p) = injectPawtect_func p"
    by (simp add: injectPawtect_func_def)
  show "hooked (injectPawtect_func p)"
    by (simp add: injectPawtect_func_def)
next
  assume "\<not> hooked p"
  then show "window_fetch (injectPawtect_func (injectPawtect_func p)) = HookedFetch (window_fetch p)"
    and "xhr_methods (injectPawtect_func (injectPawtect_func p)) = map_option HookedXhr (xhr_methods p)"
    by (simp_all add: injectPawtect_func_def split: option.splits)
next
  assume a: "\<not> hooked p \<and> window_fetch p = NativeFetch"
  then have w: "window_fetch (injectPawtect_func (injectPawtect_func p)) = HookedFetch NativeFetch"
    by (simp add: injectPawtect_func_def)
  show "hook_depth (window_fetch (injectPawtect_func (injectPawtect_func p))) = 1"
    by (simp add: w)
  show "call_fetch env (window_fetch (injectPawtect_func (injectPawtect_func p))) args =
        fetch_hook env args @ [NetworkFetch args]"
    by (simp add: w)
  have n: "compute_calls [NetworkFetch args] = []" by (simp add: compute_calls_def)
  show "length (compute_calls
        (call_fetch env (window_fetch (injectPawtect_func (injectPawtect_func p))) args)) \<le> 1"
    using fetch_hook_at_most_one [of env args] by (simp add: w compute_calls_append n)
  {
    assume "new_Request env args = Some req \<and> req_method req = ''POST'' \<and>
      is_pixel_url (req_url req) \<and> arg_init_body args = Some (StringBody b) \<and> b \<noteq> []"
    then have "fetch_hook env args = [ComputePawtect (req_url req) b]"
      by (intro fetch_hook_string_body) simp_all
    then show "compute_calls
           (call_fetch env (window_fetch (injectPawtect_func (injectPawtect_func p))) args) =
           [(req_url req, b)]"
      by (simp add: w compute_calls_def)
  }
qed

theorem install_idempotent_witness:
  "injectPawtect_func (injectPawtect_func fresh_page) = injectPawtect_func fresh_page \<and>
   window_fetch (injectPawtect_func (injectPawtect_func fresh_page)) = HookedFetch NativeFetch \<and>
   compute_calls
     (call_fetch (scan_env (\<lambda>u. None))
        (window_fetch (injectPawtect_func (injectPawtect_func fresh_page)))
        (pixel_post (Some (StringBody pixel_body)))) = [(''/s0/pixel/1/1'', pixel_body)]"
proof -
  have h: "\<not> hooked fresh_page" "window_fetch fresh_page = NativeFetch"
    by (simp_all add: fresh_page_def)
  have "new_Request (scan_env (\<lambda>u. None)) (pixel_post (Some (StringBody pixel_body))) =
          Some \<lparr> req_method = ''POST'', req_url = ''/s0/pixel/1/1'', req_clone_text = Some pixel_body \<rparr> \<and>
        req_method \<lparr> req_method = ''POST'', req_url = ''/s0/pixel/1/1'', req_clone_text = Some pixel_body \<rparr> = ''POST'' \<and>
        is_pixel_url (req_url \<lparr> req_method = ''POST'', req_url = ''/s0/pixel/1/1'', req_clone_text = Some pixel_body \<rparr>) \<and>
        arg_init_body (pixel_post (Some (StringBody pixel_body))) = Some (StringBody pixel_body) \<and>
        pixel_body \<noteq> []"
    by (simp add: scan_env_def post_request_def pixel_post_def pixel_post_url pixel_body_nonempty)
  with h install_idempotent [where p = fresh_page and env = "scan_env (\<lambda>u. None)"
      and args = "pixel_post (Some (StringBody pixel_body))"
      and req = "\<lparr> req_method = ''POST'', req_url = ''/s0/pixel/1/1'', req_clone_text = Some pixel_body \<rparr>"
      and b = pixel_body]
  have k1: "injectPawtect_func (injectPawtect_func fresh_page) = injectPawtect_func fresh_page"
    and k2: "window_fetch (injectPawtect_func (injectPawtect_func fresh_page)) =
        HookedFetch (window_fetch fresh_page)"
    and k3: "compute_calls
     (call_fetch (scan_env (\<lambda>u. None))
        (window_fetch (injectPawtect_func (injectPawtect_func fresh_page)))
        (pixel_post (Some (StringBody pixel_body)))) =
        [(req_url \<lparr> req_method = ''POST'', req_url = ''/s0/pixel/1/1'', req_clone_text = Some pixel_body \<rparr>,
          pixel_body)]"
    by blast+
  from k2 h have "window_fetch (injectPawtect_func (injectPawtect_func fresh_page)) =
      HookedFetch NativeFetch"
    by simp
  moreover from k3 have "compute_calls
     (call_fetch (scan_env (\<lambda>u. None))
        (window_fetch (injectPawtect_func (injectPawtect_func fresh_page)))
        (pixel_post (Some (StringBody pixel_body)))) = [(''/s0/pixel/1/1'', pixel_body)]"
    by simp
  ultimately show ?thesis using k1 by blast
qed

end
